theory Spec2Isabelle
  imports Main
begin

section \<open>JavaScript values\<close>

text \<open>
  The values that reach \<^verbatim>\<open>CommandInteraction\<close>: the primitives, plain data objects (own
  data properties in insertion order, no accessors, no callable values) and arrays.
  A number is an integer that a double holds exactly and prints in plain decimal.
\<close>

datatype jsval =
    JUndefined
  | JNull
  | JBool bool
  | JNum int
  | JStr string
  | JObj "(string \<times> jsval) list"
  | JArr "jsval list"

text \<open>
  \<open>Error m\<close> is \<^verbatim>\<open>new Error(m)\<close> thrown by the class itself, \<open>TypeError\<close> the
  runtime's own exception, and \<open>Remote r\<close> a rejection \<open>r\<close> handed back by the
  request-issuing client.
\<close>

datatype error = Error string | TypeError | Remote jsval

type_synonym snowflake = nat

fun typeof :: "jsval \<Rightarrow> string" where
  "typeof JUndefined = ''undefined''"
| "typeof JNull = ''object''"
| "typeof (JBool b) = ''boolean''"
| "typeof (JNum n) = ''number''"
| "typeof (JStr s) = ''string''"
| "typeof (JObj ps) = ''object''"
| "typeof (JArr xs) = ''object''"

text \<open>Truthiness, as \<^verbatim>\<open>!x\<close> and \<^verbatim>\<open>x || y\<close> test it.\<close>

fun truthy :: "jsval \<Rightarrow> bool" where
  "truthy JUndefined = False"
| "truthy JNull = False"
| "truthy (JBool b) = b"
| "truthy (JNum n) = (n \<noteq> 0)"
| "truthy (JStr s) = (s \<noteq> [])"
| "truthy (JObj ps) = True"
| "truthy (JArr xs) = True"

fun digits :: "nat \<Rightarrow> string" where
  "digits n = (if n < 10 then [''0123456789'' ! n]
               else digits (n div 10) @ [''0123456789'' ! (n mod 10)])"

definition Number_toString :: "int \<Rightarrow> string" where
  "Number_toString n = (if n < 0 then CHR ''-'' # digits (nat (- n)) else digits (nat n))"

text \<open>
  \<^verbatim>\<open>"" + v\<close>: the string form of \<open>v\<close>. An object is converted through
  \<^verbatim>\<open>valueOf\<close> and \<^verbatim>\<open>toString\<close>; the inherited \<^verbatim>\<open>valueOf\<close> returns the object itself, so
  the result is that of \<^verbatim>\<open>toString\<close>: the inherited one gives \<^verbatim>\<open>[object Object]\<close>, and an
  own data property of that name shadows it with something that cannot be called, which
  is a TypeError. An array joins the string forms of its elements with commas,
  \<^verbatim>\<open>undefined\<close> and \<^verbatim>\<open>null\<close> counting as empty.
\<close>

fun ToString :: "jsval \<Rightarrow> error + string"
  and join :: "jsval list \<Rightarrow> error + string" where
  "ToString JUndefined = Inr ''undefined''"
| "ToString JNull = Inr ''null''"
| "ToString (JBool b) = Inr (if b then ''true'' else ''false'')"
| "ToString (JNum n) = Inr (Number_toString n)"
| "ToString (JStr s) = Inr s"
| "ToString (JObj ps) =
     (if ''toString'' \<in> set (map fst ps) then Inl TypeError else Inr ''[object Object]'')"
| "ToString (JArr xs) = join xs"
| "join [] = Inr []"
| "join (x # xs) =
     (case (if x = JUndefined \<or> x = JNull then Inr [] else ToString x) of
        Inl e \<Rightarrow> Inl e
      | Inr s \<Rightarrow>
          (if xs = [] then Inr s
           else (case join xs of Inl e \<Rightarrow> Inl e | Inr r \<Rightarrow> Inr (s @ '','' @ r))))"

text \<open>
  Property read \<^verbatim>\<open>o.k\<close> and write \<^verbatim>\<open>o.k = v\<close> on the property list of a plain object,
  for the names the class uses (\<^verbatim>\<open>content\<close>, \<^verbatim>\<open>embeds\<close>, \<^verbatim>\<open>allowedMentions\<close>,
  \<^verbatim>\<open>allowed_mentions\<close>), none of which a prototype defines. A write keeps the place of a
  property that exists and appends a new one.
\<close>

definition Get :: "(string \<times> jsval) list \<Rightarrow> string \<Rightarrow> jsval" where
  "Get ps k = (case map_of ps k of None \<Rightarrow> JUndefined | Some v \<Rightarrow> v)"

fun Put :: "string \<Rightarrow> jsval \<Rightarrow> (string \<times> jsval) list \<Rightarrow> (string \<times> jsval) list" where
  "Put k v [] = [(k, v)]"
| "Put k v (p # ps) = (if fst p = k then (k, v) # ps else p # Put k v ps)"

text \<open>
  The own enumerable properties that \<^verbatim>\<open>Object.assign\<close> copies from its source: none for
  \<^verbatim>\<open>undefined\<close>, the properties of an object, the indexed elements of an array.
\<close>

fun own_props :: "jsval \<Rightarrow> (string \<times> jsval) list" where
  "own_props (JObj ps) = ps"
| "own_props (JArr xs) = zip (map digits [0..<length xs]) xs"
| "own_props v = []"

definition Object_assign :: "(string \<times> jsval) list \<Rightarrow> jsval \<Rightarrow> jsval" where
  "Object_assign target source = JObj (fold (\<lambda>p. Put (fst p) (snd p)) (own_props source) target)"

section \<open>The client and the interaction\<close>

text \<open>
  \<^verbatim>\<open>InteractionResponseTypes\<close> comes from \<^verbatim>\<open>../Constants\<close>; the two members the class names
  are kept symbolic.
\<close>

datatype response_type = CHANNEL_MESSAGE_WITH_SOURCE | DEFERRED_CHANNEL_MESSAGE_WITH_SOURCE

text \<open>
  One constructor for each client method the class calls, with the arguments of the call.
  \<open>createInteractionResponse i t ty d\<close> carries the body \<^verbatim>\<open>{type: ty, data: d}\<close>.
\<close>

datatype request =
    createInteractionResponse snowflake string response_type jsval
  | executeWebhook snowflake string jsval
  | deleteWebhookMessage snowflake string jsval
  | editWebhookMessage snowflake string jsval jsval
  | getWebhookMessage snowflake string jsval

type_synonym guild = jsval

text \<open>
  The client is an external collaborator: \<open>transport\<close> answers a request with the value
  its promise resolves to (\<open>Inr\<close>) or the reason it rejects with (\<open>Inl\<close>),
  \<open>formatAllowedMentions\<close> is \<^verbatim>\<open>client._formatAllowedMentions\<close>, and \<open>guilds\<close> is the
  guild registry \<^verbatim>\<open>client.guilds\<close>.
\<close>

record client =
  transport :: "request \<Rightarrow> jsval + jsval"
  formatAllowedMentions :: "jsval \<Rightarrow> jsval"
  guilds :: "snowflake \<rightharpoonup> guild"

text \<open>The fields of the interaction that the response methods read and write.\<close>

record interaction =
  interaction_id :: snowflake
  token :: string
  applicationID :: snowflake
  acknowledged :: jsval

text \<open>
  What one awaited call leaves behind: the value the promise resolves to or the error it
  rejects with, the interaction afterwards, and the requests handed to the client.
\<close>

record outcome =
  result :: "error + jsval"
  post :: interaction
  sent :: "request list"

definition AlreadyAcknowledgedError :: error where
  "AlreadyAcknowledgedError = Error ''You have already acknowledged this interaction.''"

definition NotYetAcknowledgedError :: "string \<Rightarrow> error" where
  "NotYetAcknowledgedError method = Error (method @
     '' cannot be used to acknowledge an interaction, please use acknowledge, createMessage, or defer first.'')"

definition EmptyContentError :: error where
  "EmptyContentError = Error ''No content or embeds''"

text \<open>
  Modelled from the spec: \<^verbatim>\<open>Interaction.update\<close>, a method of the base class, which is not
  among the sources. The spec's table gives the effect of a successful initial response as
  "state \<rightarrow> acknowledged".
\<close>

definition update :: "interaction \<Rightarrow> interaction" where
  "update s = s\<lparr>acknowledged := JBool True\<rparr>"

definition throw :: "error \<Rightarrow> interaction \<Rightarrow> outcome" where
  "throw e s = \<lparr>result = Inl e, post = s, sent = []\<rparr>"

text \<open>\<^verbatim>\<open>return client.m(...)\<close>: the call is made and its promise returned.\<close>

definition call :: "client \<Rightarrow> request \<Rightarrow> interaction \<Rightarrow> outcome" where
  "call cl req s =
     (case transport cl req of
        Inl r \<Rightarrow> \<lparr>result = Inl (Remote r), post = s, sent = [req]\<rparr>
      | Inr v \<Rightarrow> \<lparr>result = Inr v, post = s, sent = [req]\<rparr>)"

text \<open>\<^verbatim>\<open>return client.m(...).then(() => this.update())\<close>.\<close>

definition call_then_update :: "client \<Rightarrow> request \<Rightarrow> interaction \<Rightarrow> outcome" where
  "call_then_update cl req s =
     (case transport cl req of
        Inl r \<Rightarrow> \<lparr>result = Inl (Remote r), post = s, sent = [req]\<rparr>
      | Inr v \<Rightarrow> \<lparr>result = Inr JUndefined, post = update s, sent = [req]\<rparr>)"

section \<open>The response methods\<close>

text \<open>
  The block that \<^verbatim>\<open>createFollowup\<close>, \<^verbatim>\<open>editMessage\<close> and \<^verbatim>\<open>editOriginalMessage\<close> each
  open with. An array is an object without a \<^verbatim>\<open>content\<close> property, so neither branch
  touches it.
\<close>

fun normalize :: "jsval \<Rightarrow> error + jsval" where
  "normalize JUndefined = Inr JUndefined"
| "normalize (JObj ps) =
     (if Get ps ''content'' \<noteq> JUndefined \<and> typeof (Get ps ''content'') \<noteq> ''string''
      then (case ToString (Get ps ''content'') of
              Inl e \<Rightarrow> Inl e
            | Inr t \<Rightarrow> Inr (JObj (Put ''content'' (JStr t) ps)))
      else Inr (JObj ps))"
| "normalize (JArr xs) = Inr (JArr xs)"
| "normalize v =
     (case ToString v of Inl e \<Rightarrow> Inl e | Inr t \<Rightarrow> Inr (JObj [(''content'', JStr t)]))"

text \<open>
  The second \<^verbatim>\<open>if\<close> of \<^verbatim>\<open>createMessage\<close>: \<^verbatim>\<open>allowed_mentions\<close> is added when there is
  content, embeds or \<^verbatim>\<open>allowedMentions\<close>.
\<close>

definition add_allowed_mentions :: "client \<Rightarrow> (string \<times> jsval) list \<Rightarrow> jsval" where
  "add_allowed_mentions cl ps =
     (if Get ps ''content'' \<noteq> JUndefined \<or> truthy (Get ps ''embeds'')
         \<or> truthy (Get ps ''allowedMentions'')
      then JObj (Put ''allowed_mentions'' (formatAllowedMentions cl (Get ps ''allowedMentions'')) ps)
      else JObj ps)"

text \<open>
  The content block of \<^verbatim>\<open>createMessage\<close>. An array has neither \<^verbatim>\<open>content\<close> nor
  \<^verbatim>\<open>embeds\<close>, so it takes the third branch.
\<close>

fun message_data :: "client \<Rightarrow> jsval \<Rightarrow> error + jsval" where
  "message_data cl JUndefined = Inr JUndefined"
| "message_data cl (JObj ps) =
     (if Get ps ''content'' \<noteq> JUndefined \<and> typeof (Get ps ''content'') \<noteq> ''string''
      then (case ToString (Get ps ''content'') of
              Inl e \<Rightarrow> Inl e
            | Inr t \<Rightarrow> Inr (add_allowed_mentions cl (Put ''content'' (JStr t) ps)))
      else if Get ps ''content'' = JUndefined \<and> \<not> truthy (Get ps ''embeds'')
      then Inl EmptyContentError
      else Inr (add_allowed_mentions cl ps))"
| "message_data cl (JArr xs) = Inl EmptyContentError"
| "message_data cl v =
     (case ToString v of
        Inl e \<Rightarrow> Inl e
      | Inr t \<Rightarrow> Inr (add_allowed_mentions cl [(''content'', JStr t)]))"

definition acknowledge :: "jsval \<Rightarrow> client \<Rightarrow> interaction \<Rightarrow> outcome" where
  "acknowledge flags cl s =
     (if acknowledged s = JBool True then throw AlreadyAcknowledgedError s
      else call_then_update cl
             (createInteractionResponse (interaction_id s) (token s)
                DEFERRED_CHANNEL_MESSAGE_WITH_SOURCE
                (JObj [(''flags'', if truthy flags then flags else JNum 0)])) s)"

definition createFollowup :: "jsval \<Rightarrow> client \<Rightarrow> interaction \<Rightarrow> outcome" where
  "createFollowup content cl s =
     (if acknowledged s = JBool False then throw (NotYetAcknowledgedError ''createFollowup'') s
      else (case normalize content of
              Inl e \<Rightarrow> throw e s
            | Inr c \<Rightarrow>
                call cl (executeWebhook (applicationID s) (token s)
                           (Object_assign [(''wait'', JBool True)] c)) s))"

definition createMessage :: "jsval \<Rightarrow> client \<Rightarrow> interaction \<Rightarrow> outcome" where
  "createMessage content cl s =
     (if acknowledged s = JBool True then createFollowup content cl s
      else (case message_data cl content of
              Inl e \<Rightarrow> throw e s
            | Inr c \<Rightarrow>
                call_then_update cl
                  (createInteractionResponse (interaction_id s) (token s)
                     CHANNEL_MESSAGE_WITH_SOURCE c) s))"

text \<open>\<^verbatim>\<open>defer\<close>, renamed because \<open>defer\<close> is a proof command.\<close>

definition defer_response :: "jsval \<Rightarrow> client \<Rightarrow> interaction \<Rightarrow> outcome" where
  "defer_response flags cl s =
     (if acknowledged s = JBool True then throw AlreadyAcknowledgedError s
      else call_then_update cl
             (createInteractionResponse (interaction_id s) (token s)
                DEFERRED_CHANNEL_MESSAGE_WITH_SOURCE
                (JObj [(''flags'', if truthy flags then flags else JNum 0)])) s)"

definition deleteMessage :: "jsval \<Rightarrow> client \<Rightarrow> interaction \<Rightarrow> outcome" where
  "deleteMessage messageID cl s =
     (if acknowledged s = JBool False then throw (NotYetAcknowledgedError ''deleteMessage'') s
      else call cl (deleteWebhookMessage (applicationID s) (token s) messageID) s)"

definition deleteOriginalMessage :: "client \<Rightarrow> interaction \<Rightarrow> outcome" where
  "deleteOriginalMessage cl s =
     (if acknowledged s = JBool False
      then throw (NotYetAcknowledgedError ''deleteOriginalMessage'') s
      else call cl (deleteWebhookMessage (applicationID s) (token s) (JStr ''@original'')) s)"

definition editMessage :: "jsval \<Rightarrow> jsval \<Rightarrow> client \<Rightarrow> interaction \<Rightarrow> outcome" where
  "editMessage messageID content cl s =
     (if acknowledged s = JBool False then throw (NotYetAcknowledgedError ''editMessage'') s
      else (case normalize content of
              Inl e \<Rightarrow> throw e s
            | Inr c \<Rightarrow> call cl (editWebhookMessage (applicationID s) (token s) messageID c) s))"

definition editOriginalMessage :: "jsval \<Rightarrow> client \<Rightarrow> interaction \<Rightarrow> outcome" where
  "editOriginalMessage content cl s =
     (if acknowledged s = JBool False
      then throw (NotYetAcknowledgedError ''editOriginalMessage'') s
      else (case normalize content of
              Inl e \<Rightarrow> throw e s
            | Inr c \<Rightarrow>
                call cl (editWebhookMessage (applicationID s) (token s)
                           (JStr ''@original'') c) s))"

definition getOriginalMessage :: "client \<Rightarrow> interaction \<Rightarrow> outcome" where
  "getOriginalMessage cl s =
     (if acknowledged s = JBool False
      then throw (NotYetAcknowledgedError ''getOriginalMessage'') s
      else call cl (getWebhookMessage (applicationID s) (token s) (JStr ''@original'')) s)"

text \<open>
  A caller's session with one interaction: calls made one after the other, each awaited
  before the next, each with the client as it answers at that moment.
\<close>

datatype op =
    Acknowledge jsval
  | Defer jsval
  | CreateMessage jsval
  | CreateFollowup jsval
  | DeleteMessage jsval
  | DeleteOriginalMessage
  | EditMessage jsval jsval
  | EditOriginalMessage jsval
  | GetOriginalMessage

fun perform :: "op \<Rightarrow> client \<Rightarrow> interaction \<Rightarrow> outcome" where
  "perform (Acknowledge flags) cl s = acknowledge flags cl s"
| "perform (Defer flags) cl s = defer_response flags cl s"
| "perform (CreateMessage content) cl s = createMessage content cl s"
| "perform (CreateFollowup content) cl s = createFollowup content cl s"
| "perform (DeleteMessage messageID) cl s = deleteMessage messageID cl s"
| "perform DeleteOriginalMessage cl s = deleteOriginalMessage cl s"
| "perform (EditMessage messageID content) cl s = editMessage messageID content cl s"
| "perform (EditOriginalMessage content) cl s = editOriginalMessage content cl s"
| "perform GetOriginalMessage cl s = getOriginalMessage cl s"

fun run :: "(op \<times> client) list \<Rightarrow> interaction \<Rightarrow> outcome list" where
  "run [] s = []"
| "run (step # steps) s =
     (let out = perform (fst step) (snd step) s in out # run steps (post out))"

fun is_initial :: "request \<Rightarrow> bool" where
  "is_initial (createInteractionResponse i t ty d) = True"
| "is_initial req = False"

text \<open>A call succeeds as the initial response: it resolves, having sent one.\<close>

definition initial_success :: "outcome \<Rightarrow> bool" where
  "initial_success out = (isl (result out) = False \<and> filter is_initial (sent out) \<noteq> [])"

text \<open>The three methods that may make the initial response.\<close>

fun initial_op :: "op \<Rightarrow> bool" where
  "initial_op (Acknowledge flags) = True"
| "initial_op (Defer flags) = True"
| "initial_op (CreateMessage content) = True"
| "initial_op a = False"

text \<open>How often a session takes the interaction from not acknowledged to acknowledged.\<close>

fun transitions :: "(op \<times> client) list \<Rightarrow> interaction \<Rightarrow> nat" where
  "transitions [] s = 0"
| "transitions (step # steps) s =
     (let out = perform (fst step) (snd step) s
      in (if acknowledged s \<noteq> JBool True \<and> acknowledged (post out) = JBool True then 1 else 0)
         + transitions steps (post out))"

section \<open>The constructor\<close>

text \<open>
  The payload arrives as parsed JSON. An absent property is \<open>None\<close>. Each kind of the
  resolved block is a plain object keyed by ID; IDs are snowflakes, decimal numerals, and
  the model keeps the number.
\<close>

type_synonym id_object = "(snowflake \<times> jsval) list"

record resolved =
  users :: "id_object option"
  members :: "id_object option"
  roles :: "id_object option"
  channels :: "id_object option"
  messages :: "id_object option"

record command_data =
  resolved :: "resolved option"
  other_properties :: "(string \<times> jsval) list"

record info =
  info_channel_id :: "snowflake option"
  info_data :: command_data
  info_guild_id :: "snowflake option"
  info_member :: "jsval option"
  info_user :: "jsval option"

text \<open>
  The entity classes are not among the sources; the constructor takes them as a
  parameter, each a function from its arguments to the object built or the error thrown.
  \<open>Member_new\<close> keeps its second and third argument, which differ between the two
  places that call it.
\<close>

datatype ctor_arg = NoArg | GuildArg guild | ClientArg

datatype entity =
    User jsval
  | Member jsval "guild option"
  | Role jsval
  | Channel jsval
  | Message jsval

record classes =
  User_new :: "jsval \<Rightarrow> error + entity"
  Member_new :: "jsval \<Rightarrow> ctor_arg \<Rightarrow> ctor_arg \<Rightarrow> error + entity"
  Role_new :: "jsval \<Rightarrow> error + entity"
  Channel_new :: "jsval \<Rightarrow> error + entity"
  Message_new :: "jsval \<Rightarrow> error + entity"

text \<open>The properties the constructor's own body sets, after \<^verbatim>\<open>super\<close> has returned.\<close>

record command_interaction =
  channelID :: "snowflake option"
  data :: command_data
  guildID :: "snowflake option"
  member_field :: "entity option"
  user_field :: "entity option"

text \<open>
  \<^verbatim>\<open>Array.from\<close> of an ID-keyed plain object. The object is not iterable, so it is read
  as array-like: its length is \<^verbatim>\<open>ToLength(obj.length)\<close>, and \<^verbatim>\<open>obj.length\<close> is
  \<^verbatim>\<open>undefined\<close>, every key being an ID. The length is 0 and the array empty.
\<close>

definition LengthOfArrayLike :: "id_object \<Rightarrow> nat" where
  "LengthOfArrayLike obj = 0"

definition Array_from :: "id_object \<Rightarrow> jsval list" where
  "Array_from obj =
     map (\<lambda>i. case map_of obj i of None \<Rightarrow> JUndefined | Some v \<Rightarrow> v)
       [0..<LengthOfArrayLike obj]"

text \<open>\<^verbatim>\<open>forEach\<close> hands the callback each element and its index; a throw ends it.\<close>

fun forEach_from :: "nat \<Rightarrow> 'a list \<Rightarrow> ('a \<Rightarrow> nat \<Rightarrow> error + unit) \<Rightarrow> error + unit" where
  "forEach_from i [] f = Inr ()"
| "forEach_from i (x # xs) f =
     (case f x i of Inl e \<Rightarrow> Inl e | Inr u \<Rightarrow> forEach_from (Suc i) xs f)"

definition forEach :: "'a list \<Rightarrow> ('a \<Rightarrow> nat \<Rightarrow> error + unit) \<Rightarrow> error + unit" where
  "forEach xs f = forEach_from 0 xs f"

text \<open>
  \<^verbatim>\<open>obj.set(id, new C(...))\<close> on a plain object: \<^verbatim>\<open>obj.set\<close> is \<^verbatim>\<open>undefined\<close>, the
  argument is evaluated, which may throw, and then the call of \<^verbatim>\<open>undefined\<close> throws.
\<close>

definition set_entry :: "nat \<Rightarrow> error + entity \<Rightarrow> error + unit" where
  "set_entry i built = (case built of Inl e \<Rightarrow> Inl e | Inr v \<Rightarrow> Inl TypeError)"

definition hydrate :: "(jsval \<Rightarrow> error + entity) \<Rightarrow> id_object option \<Rightarrow> error + unit" where
  "hydrate new kind =
     (case kind of
        None \<Rightarrow> Inr ()
      | Some obj \<Rightarrow> forEach (Array_from obj) (\<lambda>raw i. set_entry i (new raw)))"

text \<open>
  The roles branch reads \<^verbatim>\<open>this.Array.from\<close>; the object has no \<^verbatim>\<open>Array\<close> property, and
  reading \<^verbatim>\<open>from\<close> of \<^verbatim>\<open>undefined\<close> throws.
\<close>

definition hydrate_roles :: "(jsval \<Rightarrow> error + entity) \<Rightarrow> id_object option \<Rightarrow> error + unit" where
  "hydrate_roles new kind = (case kind of None \<Rightarrow> Inr () | Some obj \<Rightarrow> Inl TypeError)"

definition and_then :: "error + 'a \<Rightarrow> ('a \<Rightarrow> error + 'b) \<Rightarrow> error + 'b" where
  "and_then r f = (case r of Inl e \<Rightarrow> Inl e | Inr v \<Rightarrow> f v)"

definition hydrate_resolved :: "classes \<Rightarrow> resolved option \<Rightarrow> error + unit" where
  "hydrate_resolved cls block =
     (case block of
        None \<Rightarrow> Inr ()
      | Some r \<Rightarrow>
          and_then (hydrate (User_new cls) (users r)) (\<lambda>u1.
          and_then (hydrate (\<lambda>raw. Member_new cls raw ClientArg NoArg) (members r)) (\<lambda>u2.
          and_then (hydrate_roles (Role_new cls) (roles r)) (\<lambda>u3.
          and_then (hydrate (Channel_new cls) (channels r)) (\<lambda>u4.
          hydrate (Message_new cls) (messages r))))))"

text \<open>\<^verbatim>\<open>client.guilds.get(info.guild_id)\<close>, as an argument of \<^verbatim>\<open>new Member\<close>.\<close>

definition guilds_get :: "client \<Rightarrow> snowflake option \<Rightarrow> ctor_arg" where
  "guilds_get cl gid =
     (case gid of
        None \<Rightarrow> NoArg
      | Some g \<Rightarrow> (case guilds cl g of None \<Rightarrow> NoArg | Some x \<Rightarrow> GuildArg x))"

definition construct_optional :: "('a \<Rightarrow> error + entity) \<Rightarrow> 'a option \<Rightarrow> error + entity option" where
  "construct_optional new raw =
     (case raw of
        None \<Rightarrow> Inr None
      | Some x \<Rightarrow> (case new x of Inl e \<Rightarrow> Inl e | Inr v \<Rightarrow> Inr (Some v)))"

definition CommandInteraction_new :: "classes \<Rightarrow> client \<Rightarrow> info \<Rightarrow> error + command_interaction" where
  "CommandInteraction_new cls cl info =
     and_then (hydrate_resolved cls (resolved (info_data info))) (\<lambda>u.
     and_then (construct_optional
                 (\<lambda>m. Member_new cls m (guilds_get cl (info_guild_id info)) ClientArg)
                 (info_member info)) (\<lambda>m.
     and_then (construct_optional (User_new cls) (info_user info)) (\<lambda>u.
     Inr \<lparr>channelID = info_channel_id info, data = info_data info,
          guildID = info_guild_id info, member_field = m, user_field = u\<rparr>)))"

text \<open>
  Modelled from the spec: the \<^verbatim>\<open>Member\<close> class, which is not among the sources. Section 4.1
  has member hydration take the owning guild from the registry and, when the registry has
  none, not crash but yield a guild-less member record.
\<close>

definition Member_spec :: "jsval \<Rightarrow> ctor_arg \<Rightarrow> ctor_arg \<Rightarrow> error + entity" where
  "Member_spec raw g c = Inr (Member raw (case g of GuildArg x \<Rightarrow> Some x | _ \<Rightarrow> None))"

text \<open>The IDs of each kind of a resolved block, in the order users, members, roles,
  channels, messages.\<close>

definition ids :: "id_object option \<Rightarrow> snowflake list" where
  "ids kind = (case kind of None \<Rightarrow> [] | Some obj \<Rightarrow> map fst obj)"

definition resolved_ids :: "command_data \<Rightarrow> snowflake list list" where
  "resolved_ids d =
     (case resolved d of
        None \<Rightarrow> []
      | Some r \<Rightarrow> [ids (users r), ids (members r), ids (roles r), ids (channels r), ids (messages r)])"

section \<open>Concrete collaborators and inputs\<close>

text \<open>A client whose transport resolves every request, and one that rejects every request.\<close>

definition accepting_client :: client where
  "accepting_client =
     \<lparr>transport = (\<lambda>req. Inr (JObj [(''id'', JStr ''900'')])),
      formatAllowedMentions = (\<lambda>allowed. JObj [(''parse'', JArr [])]),
      guilds = Map.empty\<rparr>"

definition rejecting_client :: client where
  "rejecting_client =
     \<lparr>transport = (\<lambda>req. Inl (JStr ''DiscordRESTError'')),
      formatAllowedMentions = (\<lambda>allowed. JObj [(''parse'', JArr [])]),
      guilds = Map.empty\<rparr>"

text \<open>One interaction in each of the three acknowledgment states.\<close>

definition unacknowledged_interaction :: interaction where
  "unacknowledged_interaction =
     \<lparr>interaction_id = 700, token = ''tok'', applicationID = 800, acknowledged = JBool False\<rparr>"

definition unset_interaction :: interaction where
  "unset_interaction =
     \<lparr>interaction_id = 700, token = ''tok'', applicationID = 800, acknowledged = JUndefined\<rparr>"

definition acknowledged_interaction :: interaction where
  "acknowledged_interaction =
     \<lparr>interaction_id = 700, token = ''tok'', applicationID = 800, acknowledged = JBool True\<rparr>"

text \<open>Entity classes that throw on a payload without an \<^verbatim>\<open>id\<close>.\<close>

definition require_id :: "(jsval \<Rightarrow> entity) \<Rightarrow> jsval \<Rightarrow> error + entity" where
  "require_id build raw =
     (case raw of
        JObj ps \<Rightarrow>
          (if Get ps ''id'' = JUndefined then Inl (Error ''PayloadShapeError'')
           else Inr (build raw))
      | _ \<Rightarrow> Inl (Error ''PayloadShapeError''))"

definition checking_classes :: classes where
  "checking_classes =
     \<lparr>User_new = require_id User,
      Member_new = (\<lambda>raw g c. require_id (\<lambda>r. Member r None) raw),
      Role_new = require_id Role,
      Channel_new = require_id Channel,
      Message_new = require_id Message\<rparr>"

text \<open>Payloads: one with a resolved role, one with two resolved users of which the second
  lacks its \<^verbatim>\<open>id\<close>, one with a member of a guild the registry does not hold.\<close>

definition no_resolved :: resolved where
  "no_resolved = \<lparr>users = None, members = None, roles = None, channels = None, messages = None\<rparr>"

definition role_info :: info where
  "role_info =
     \<lparr>info_channel_id = Some 10,
      info_data = \<lparr>resolved = Some (no_resolved\<lparr>roles := Some [(1, JObj [(''id'', JStr ''1'')])]\<rparr>),
                   other_properties = [(''name'', JStr ''ban'')]\<rparr>,
      info_guild_id = None, info_member = None, info_user = None\<rparr>"

definition malformed_user_info :: info where
  "malformed_user_info =
     \<lparr>info_channel_id = Some 10,
      info_data = \<lparr>resolved = Some (no_resolved\<lparr>users :=
                     Some [(1, JObj [(''id'', JStr ''1'')]), (2, JObj [])]\<rparr>),
                   other_properties = [(''name'', JStr ''ban'')]\<rparr>,
      info_guild_id = None, info_member = None, info_user = None\<rparr>"

definition member_info :: info where
  "member_info =
     \<lparr>info_channel_id = Some 10,
      info_data = \<lparr>resolved = None, other_properties = [(''name'', JStr ''ban'')]\<rparr>,
      info_guild_id = Some 20,
      info_member = Some (JObj [(''nick'', JStr ''n'')]),
      info_user = None\<rparr>"

section \<open>Facts about the helpers\<close>

lemmas method_defs =
  acknowledge_def defer_response_def createMessage_def createFollowup_def deleteMessage_def
  deleteOriginalMessage_def editMessage_def editOriginalMessage_def getOriginalMessage_def

lemma throw_simps [simp]:
  "sent (throw e s) = []"
  "post (throw e s) = s"
  "result (throw e s) = Inl e"
  by (simp_all add: throw_def)

lemma call_simps [simp]:
  "sent (call cl req s) = [req]"
  "post (call cl req s) = s"
  "result (call cl req s) = (case transport cl req of Inl r \<Rightarrow> Inl (Remote r) | Inr v \<Rightarrow> Inr v)"
  by (simp_all add: call_def split: sum.splits)

lemma call_then_update_simps [simp]:
  "sent (call_then_update cl req s) = [req]"
  "post (call_then_update cl req s) = (if isl (transport cl req) then s else update s)"
  "result (call_then_update cl req s) =
     (case transport cl req of Inl r \<Rightarrow> Inl (Remote r) | Inr v \<Rightarrow> Inr JUndefined)"
  by (simp_all add: call_then_update_def split: sum.splits)

lemma acknowledged_update [simp]: "acknowledged (update s) = JBool True"
  by (simp add: update_def)

lemma Get_Put: "Get (Put k v ps) k' = (if k' = k then v else Get ps k')"
  by (induction ps) (auto simp add: Get_def)

text \<open>String conversion, and with it the content block, fails with a TypeError only.\<close>

lemma ToString_error:
  "ToString v = Inl e \<Longrightarrow> e = TypeError"
  "join xs = Inl e \<Longrightarrow> e = TypeError"
  by (induction v and xs arbitrary: e and e rule: ToString_join.induct)
     (auto split: if_splits sum.splits)

lemma normalize_error: "normalize c = Inl e \<Longrightarrow> e = TypeError"
  by (cases c) (auto split: if_splits sum.splits dest: ToString_error)

section \<open>The acknowledgment state machine\<close>

lemma stays_acknowledged:
  "acknowledged s = JBool True \<Longrightarrow> acknowledged (post (perform a cl s)) = JBool True"
  by (cases a) (simp_all add: method_defs split: sum.splits)

lemma no_initial_once_acknowledged:
  "acknowledged s = JBool True \<Longrightarrow> \<not> initial_success (perform a cl s)"
  by (cases a) (simp_all add: method_defs initial_success_def split: sum.splits)

lemma initial_success_acknowledges:
  "initial_success (perform a cl s) \<Longrightarrow> acknowledged (post (perform a cl s)) = JBool True"
  by (cases a) (auto simp add: method_defs initial_success_def split: sum.splits if_splits)

lemma none_after_acknowledged:
  "acknowledged s = JBool True \<Longrightarrow> filter initial_success (run steps s) = []"
proof (induction steps arbitrary: s)
  case Nil
  show ?case by simp
next
  case (Cons step steps)
  from Cons.prems have "\<not> initial_success (perform (fst step) (snd step) s)"
    by (rule no_initial_once_acknowledged)
  moreover from Cons.prems
  have "acknowledged (post (perform (fst step) (snd step) s)) = JBool True"
    by (rule stays_acknowledged)
  ultimately show ?case using Cons.IH by (simp add: Let_def)
qed

lemma at_most_one_initial: "length (filter initial_success (run steps s)) \<le> 1"
proof (induction steps arbitrary: s)
  case Nil
  show ?case by simp
next
  case (Cons step steps)
  let ?out = "perform (fst step) (snd step) s"
  show ?case
  proof (cases "initial_success ?out")
    case True
    then have "acknowledged (post ?out) = JBool True"
      by (rule initial_success_acknowledges)
    then have "filter initial_success (run steps (post ?out)) = []"
      by (rule none_after_acknowledged)
    with True show ?thesis by (simp add: Let_def)
  next
    case False
    with Cons.IH [of "post ?out"] show ?thesis by (simp add: Let_def)
  qed
qed

lemma no_transition_once_acknowledged:
  "acknowledged s = JBool True \<Longrightarrow> transitions steps s = 0"
proof (induction steps arbitrary: s)
  case Nil
  show ?case by simp
next
  case (Cons step steps)
  from Cons.prems
  have "acknowledged (post (perform (fst step) (snd step) s)) = JBool True"
    by (rule stays_acknowledged)
  with Cons.prems Cons.IH show ?case by (simp add: Let_def)
qed

lemma at_most_one_transition: "transitions steps s \<le> 1"
proof (induction steps arbitrary: s)
  case Nil
  show ?case by simp
next
  case (Cons step steps)
  let ?out = "perform (fst step) (snd step) s"
  show ?case
  proof (cases "acknowledged (post ?out) = JBool True")
    case True
    then have "transitions steps (post ?out) = 0"
      by (rule no_transition_once_acknowledged)
    then show ?thesis by (simp add: Let_def)
  next
    case False
    with Cons.IH [of "post ?out"] show ?thesis by (simp add: Let_def)
  qed
qed

text \<open>
  Claim C1. In every session of awaited calls on one interaction, started in any state, at
  most one call succeeds as the initial response and the state goes from not acknowledged
  to acknowledged at most once. Once \<^verbatim>\<open>acknowledged\<close> is true, \<^verbatim>\<open>acknowledge\<close> and
  \<^verbatim>\<open>defer\<close> throw the already-acknowledged error without a request, \<^verbatim>\<open>createMessage\<close>
  is \<^verbatim>\<open>createFollowup\<close> and sends no initial response, and every method leaves the
  state acknowledged.
\<close>

theorem single_initial_response:
  "length (filter initial_success (run steps s0)) \<le> 1
   \<and> transitions steps s0 \<le> 1
   \<and> (acknowledged s = JBool True \<longrightarrow>
        acknowledge flags cl s = \<lparr>result = Inl AlreadyAcknowledgedError, post = s, sent = []\<rparr>
      \<and> defer_response flags cl s = \<lparr>result = Inl AlreadyAcknowledgedError, post = s, sent = []\<rparr>
      \<and> createMessage content cl s = createFollowup content cl s
      \<and> filter is_initial (sent (createMessage content cl s)) = []
      \<and> acknowledged (post (perform a cl s)) = JBool True)"
proof (intro conjI impI)
  show "length (filter initial_success (run steps s0)) \<le> 1"
    by (rule at_most_one_initial)
  show "transitions steps s0 \<le> 1"
    by (rule at_most_one_transition)
next
  assume ack: "acknowledged s = JBool True"
  then show "acknowledge flags cl s = \<lparr>result = Inl AlreadyAcknowledgedError, post = s, sent = []\<rparr>"
    by (simp add: acknowledge_def throw_def)
  from ack show "defer_response flags cl s = \<lparr>result = Inl AlreadyAcknowledgedError, post = s, sent = []\<rparr>"
    by (simp add: defer_response_def throw_def)
  from ack show "createMessage content cl s = createFollowup content cl s"
    by (simp add: createMessage_def)
  from ack show "filter is_initial (sent (createMessage content cl s)) = []"
    by (simp add: createMessage_def createFollowup_def split: sum.splits)
  from ack show "acknowledged (post (perform a cl s)) = JBool True"
    by (rule stays_acknowledged)
qed

theorem single_initial_response_witness:
  "acknowledged acknowledged_interaction = JBool True
   \<and> length (filter initial_success
        (run [(Acknowledge (JNum 64), accepting_client),
              (CreateMessage (JStr ''hi''), accepting_client),
              (Defer JUndefined, accepting_client)] unacknowledged_interaction)) \<le> 1
   \<and> acknowledge (JNum 64) accepting_client acknowledged_interaction =
        \<lparr>result = Inl AlreadyAcknowledgedError, post = acknowledged_interaction, sent = []\<rparr>
   \<and> createMessage (JStr ''hi'') accepting_client acknowledged_interaction =
        createFollowup (JStr ''hi'') accepting_client acknowledged_interaction"
  using single_initial_response
    [of "[(Acknowledge (JNum 64), accepting_client),
          (CreateMessage (JStr ''hi''), accepting_client),
          (Defer JUndefined, accepting_client)]"
        unacknowledged_interaction acknowledged_interaction "JNum 64" accepting_client
        "JStr ''hi''" "Acknowledge (JNum 64)"]
  by (simp add: acknowledged_interaction_def)

text \<open>
  Claim C2. On an interaction whose \<^verbatim>\<open>acknowledged\<close> is false, as it is before any
  acknowledgment has completed, each of \<^verbatim>\<open>createFollowup\<close>, \<^verbatim>\<open>editMessage\<close>,
  \<^verbatim>\<open>deleteMessage\<close> and \<^verbatim>\<open>getOriginalMessage\<close> throws its not-yet-acknowledged error,
  hands no request to the client and leaves the interaction as it was.
\<close>

theorem not_yet_acknowledged_guard:
  assumes "acknowledged s = JBool False"
  shows "createFollowup content cl s =
           \<lparr>result = Inl (NotYetAcknowledgedError ''createFollowup''), post = s, sent = []\<rparr>
       \<and> editMessage messageID content cl s =
           \<lparr>result = Inl (NotYetAcknowledgedError ''editMessage''), post = s, sent = []\<rparr>
       \<and> deleteMessage messageID cl s =
           \<lparr>result = Inl (NotYetAcknowledgedError ''deleteMessage''), post = s, sent = []\<rparr>
       \<and> getOriginalMessage cl s =
           \<lparr>result = Inl (NotYetAcknowledgedError ''getOriginalMessage''), post = s, sent = []\<rparr>"
  using assms
  by (simp add: createFollowup_def editMessage_def deleteMessage_def getOriginalMessage_def
        throw_def)

theorem not_yet_acknowledged_guard_witness:
  "acknowledged unacknowledged_interaction = JBool False
   \<and> createFollowup (JObj [(''content'', JStr ''hi'')]) accepting_client unacknowledged_interaction =
       \<lparr>result = Inl (NotYetAcknowledgedError ''createFollowup''),
        post = unacknowledged_interaction, sent = []\<rparr>
   \<and> deleteMessage (JStr ''@original'') accepting_client unacknowledged_interaction =
       \<lparr>result = Inl (NotYetAcknowledgedError ''deleteMessage''),
        post = unacknowledged_interaction, sent = []\<rparr>"
  using not_yet_acknowledged_guard
    [of unacknowledged_interaction "JObj [(''content'', JStr ''hi'')]" accepting_client
        "JStr ''@original''"]
  by (simp add: unacknowledged_interaction_def)

section \<open>Content\<close>

text \<open>
  Claim C3, as amended. On an interaction that is not acknowledged, \<^verbatim>\<open>createMessage\<close>
  rejects with "No content or embeds", hands no request to the client and leaves the
  interaction as it was, when its argument is an object with no \<^verbatim>\<open>content\<close> and no truthy
  \<^verbatim>\<open>embeds\<close>. A bare string, the empty one included, is not examined: it becomes the
  \<^verbatim>\<open>content\<close> of a new object and goes out as the initial response.
\<close>

theorem createMessage_empty_content:
  assumes "acknowledged s \<noteq> JBool True"
  shows "(Get ps ''content'' = JUndefined \<and> \<not> truthy (Get ps ''embeds'') \<longrightarrow>
            createMessage (JObj ps) cl s = \<lparr>result = Inl EmptyContentError, post = s, sent = []\<rparr>)
       \<and> sent (createMessage (JStr t) cl s) =
            [createInteractionResponse (interaction_id s) (token s) CHANNEL_MESSAGE_WITH_SOURCE
               (JObj [(''content'', JStr t),
                      (''allowed_mentions'', formatAllowedMentions cl JUndefined)])]"
  using assms
  by (simp add: createMessage_def throw_def add_allowed_mentions_def Get_def)

theorem createMessage_empty_content_witness:
  "acknowledged unacknowledged_interaction \<noteq> JBool True
   \<and> Get [(''tts'', JBool True)] ''content'' = JUndefined
   \<and> \<not> truthy (Get [(''tts'', JBool True)] ''embeds'')
   \<and> createMessage (JObj [(''tts'', JBool True)]) accepting_client unacknowledged_interaction =
       \<lparr>result = Inl EmptyContentError, post = unacknowledged_interaction, sent = []\<rparr>"
  using createMessage_empty_content
    [of unacknowledged_interaction "[(''tts'', JBool True)]" accepting_client "[]"]
  by (simp add: unacknowledged_interaction_def Get_def)

text \<open>
  Claim C3 as stated fails: \<^verbatim>\<open>createMessage("")\<close> on an unacknowledged interaction does
  not reject, and sends \<^verbatim>\<open>{content: ""}\<close> with the formatted mentions as the initial
  response.
\<close>

theorem createMessage_empty_string_is_sent:
  "result (createMessage (JStr []) accepting_client unacknowledged_interaction)
     \<noteq> Inl EmptyContentError
   \<and> sent (createMessage (JStr []) accepting_client unacknowledged_interaction) =
       [createInteractionResponse 700 ''tok'' CHANNEL_MESSAGE_WITH_SOURCE
          (JObj [(''content'', JStr []), (''allowed_mentions'', JObj [(''parse'', JArr [])])])]"
  by (simp add: createMessage_def unacknowledged_interaction_def accepting_client_def
        add_allowed_mentions_def Get_def)

text \<open>
  Claim C7. In \<^verbatim>\<open>createMessage\<close>, \<^verbatim>\<open>createFollowup\<close>, \<^verbatim>\<open>editMessage\<close> and
  \<^verbatim>\<open>editOriginalMessage\<close>, once the guard is passed, a value \<open>v\<close> that is not an object
  (and not \<^verbatim>\<open>undefined\<close>) goes out as an object whose \<^verbatim>\<open>content\<close> is the string form of
  \<open>v\<close>, and an object whose \<^verbatim>\<open>content\<close> is defined and not a string goes out with that
  property replaced by its string form. \<^verbatim>\<open>createFollowup\<close> merges the object into
  \<^verbatim>\<open>{wait: true}\<close> and \<^verbatim>\<open>createMessage\<close> adds \<^verbatim>\<open>allowed_mentions\<close> to it.
\<close>

theorem content_normalization:
  "((v = JNull \<or> typeof v \<noteq> ''object'') \<and> v \<noteq> JUndefined \<and> ToString v = Inr t \<longrightarrow>
      (acknowledged s \<noteq> JBool False \<longrightarrow>
         sent (createFollowup v cl s) =
           [executeWebhook (applicationID s) (token s)
              (JObj [(''wait'', JBool True), (''content'', JStr t)])]
       \<and> sent (editMessage messageID v cl s) =
           [editWebhookMessage (applicationID s) (token s) messageID (JObj [(''content'', JStr t)])]
       \<and> sent (editOriginalMessage v cl s) =
           [editWebhookMessage (applicationID s) (token s) (JStr ''@original'')
              (JObj [(''content'', JStr t)])])
    \<and> (acknowledged s' \<noteq> JBool True \<longrightarrow>
         sent (createMessage v cl s') =
           [createInteractionResponse (interaction_id s') (token s') CHANNEL_MESSAGE_WITH_SOURCE
              (JObj [(''content'', JStr t),
                     (''allowed_mentions'', formatAllowedMentions cl JUndefined)])]))
 \<and> (Get ps ''content'' \<noteq> JUndefined \<and> typeof (Get ps ''content'') \<noteq> ''string''
      \<and> ToString (Get ps ''content'') = Inr u \<longrightarrow>
      Get (Put ''content'' (JStr u) ps) ''content'' = JStr u
    \<and> (acknowledged s \<noteq> JBool False \<longrightarrow>
         sent (createFollowup (JObj ps) cl s) =
           [executeWebhook (applicationID s) (token s)
              (Object_assign [(''wait'', JBool True)] (JObj (Put ''content'' (JStr u) ps)))]
       \<and> sent (editMessage messageID (JObj ps) cl s) =
           [editWebhookMessage (applicationID s) (token s) messageID
              (JObj (Put ''content'' (JStr u) ps))]
       \<and> sent (editOriginalMessage (JObj ps) cl s) =
           [editWebhookMessage (applicationID s) (token s) (JStr ''@original'')
              (JObj (Put ''content'' (JStr u) ps))])
    \<and> (acknowledged s' \<noteq> JBool True \<longrightarrow>
         sent (createMessage (JObj ps) cl s') =
           [createInteractionResponse (interaction_id s') (token s') CHANNEL_MESSAGE_WITH_SOURCE
              (JObj (Put ''allowed_mentions''
                       (formatAllowedMentions cl (Get ps ''allowedMentions''))
                       (Put ''content'' (JStr u) ps)))]))"
proof (intro conjI impI)
  assume bare: "(v = JNull \<or> typeof v \<noteq> ''object'') \<and> v \<noteq> JUndefined \<and> ToString v = Inr t"
  then have n: "normalize v = Inr (JObj [(''content'', JStr t)])"
    by (cases v) auto
  from bare have m: "message_data cl v =
      Inr (JObj [(''content'', JStr t), (''allowed_mentions'', formatAllowedMentions cl JUndefined)])"
    by (cases v) (auto simp add: add_allowed_mentions_def Get_def)
  { assume "acknowledged s \<noteq> JBool False"
    with n show "sent (createFollowup v cl s) =
           [executeWebhook (applicationID s) (token s)
              (JObj [(''wait'', JBool True), (''content'', JStr t)])]"
      by (simp add: createFollowup_def Object_assign_def)
  }
  { assume "acknowledged s \<noteq> JBool False"
    with n show "sent (editMessage messageID v cl s) =
           [editWebhookMessage (applicationID s) (token s) messageID (JObj [(''content'', JStr t)])]"
      by (simp add: editMessage_def)
  }
  { assume "acknowledged s \<noteq> JBool False"
    with n show "sent (editOriginalMessage v cl s) =
           [editWebhookMessage (applicationID s) (token s) (JStr ''@original'')
              (JObj [(''content'', JStr t)])]"
      by (simp add: editOriginalMessage_def)
  }
  { assume "acknowledged s' \<noteq> JBool True"
    with m show "sent (createMessage v cl s') =
           [createInteractionResponse (interaction_id s') (token s') CHANNEL_MESSAGE_WITH_SOURCE
              (JObj [(''content'', JStr t),
                     (''allowed_mentions'', formatAllowedMentions cl JUndefined)])]"
      by (simp add: createMessage_def)
  }
next
  assume obj: "Get ps ''content'' \<noteq> JUndefined \<and> typeof (Get ps ''content'') \<noteq> ''string''
      \<and> ToString (Get ps ''content'') = Inr u"
  then have n: "normalize (JObj ps) = Inr (JObj (Put ''content'' (JStr u) ps))"
    by simp
  from obj have m: "message_data cl (JObj ps) =
      Inr (JObj (Put ''allowed_mentions'' (formatAllowedMentions cl (Get ps ''allowedMentions''))
                   (Put ''content'' (JStr u) ps)))"
    by (simp add: add_allowed_mentions_def Get_Put)
  show "Get (Put ''content'' (JStr u) ps) ''content'' = JStr u"
    by (simp add: Get_Put)
  { assume "acknowledged s \<noteq> JBool False"
    with n show "sent (createFollowup (JObj ps) cl s) =
           [executeWebhook (applicationID s) (token s)
              (Object_assign [(''wait'', JBool True)] (JObj (Put ''content'' (JStr u) ps)))]"
      by (simp add: createFollowup_def)
  }
  { assume "acknowledged s \<noteq> JBool False"
    with n show "sent (editMessage messageID (JObj ps) cl s) =
           [editWebhookMessage (applicationID s) (token s) messageID
              (JObj (Put ''content'' (JStr u) ps))]"
      by (simp add: editMessage_def)
  }
  { assume "acknowledged s \<noteq> JBool False"
    with n show "sent (editOriginalMessage (JObj ps) cl s) =
           [editWebhookMessage (applicationID s) (token s) (JStr ''@original'')
              (JObj (Put ''content'' (JStr u) ps))]"
      by (simp add: editOriginalMessage_def)
  }
  { assume "acknowledged s' \<noteq> JBool True"
    with m show "sent (createMessage (JObj ps) cl s') =
           [createInteractionResponse (interaction_id s') (token s') CHANNEL_MESSAGE_WITH_SOURCE
              (JObj (Put ''allowed_mentions''
                       (formatAllowedMentions cl (Get ps ''allowedMentions''))
                       (Put ''content'' (JStr u) ps)))]"
      by (simp add: createMessage_def)
  }
qed

theorem content_normalization_witness:
  "ToString (JNum 5) = Inr ''5''
   \<and> ToString (Get [(''content'', JBool True), (''tts'', JBool False)] ''content'') = Inr ''true''
   \<and> sent (createFollowup (JNum 5) accepting_client acknowledged_interaction) =
       [executeWebhook 800 ''tok'' (JObj [(''wait'', JBool True), (''content'', JStr ''5'')])]
   \<and> sent (createMessage (JNum 5) accepting_client unacknowledged_interaction) =
       [createInteractionResponse 700 ''tok'' CHANNEL_MESSAGE_WITH_SOURCE
          (JObj [(''content'', JStr ''5''), (''allowed_mentions'', JObj [(''parse'', JArr [])])])]
   \<and> sent (editMessage (JStr ''@original'')
              (JObj [(''content'', JBool True), (''tts'', JBool False)])
              accepting_client acknowledged_interaction) =
       [editWebhookMessage 800 ''tok'' (JStr ''@original'')
          (JObj [(''content'', JStr ''true''), (''tts'', JBool False)])]
   \<and> sent (createMessage (JObj [(''content'', JBool True), (''tts'', JBool False)])
              accepting_client unacknowledged_interaction) =
       [createInteractionResponse 700 ''tok'' CHANNEL_MESSAGE_WITH_SOURCE
          (JObj [(''content'', JStr ''true''), (''tts'', JBool False),
                 (''allowed_mentions'', JObj [(''parse'', JArr [])])])]"
  using content_normalization
    [of "JNum 5" "''5''" acknowledged_interaction accepting_client "JStr ''@original''"
        unacknowledged_interaction "[(''content'', JBool True), (''tts'', JBool False)]" "''true''"]
  by (simp add: acknowledged_interaction_def unacknowledged_interaction_def accepting_client_def
        Get_def Number_toString_def)

section \<open>Guards and local failures\<close>

text \<open>
  Claim C5, as amended. With \<^verbatim>\<open>acknowledged\<close> unset, \<^verbatim>\<open>acknowledge\<close>, \<^verbatim>\<open>defer\<close> and
  \<^verbatim>\<open>createMessage\<close> resolve or reject and send exactly as they do when it is false, and
  acknowledge the interaction when they resolve. The guards of the other six methods
  compare with false only: with \<^verbatim>\<open>acknowledged\<close> unset they resolve or reject and send
  exactly as on an acknowledged interaction, never with the not-yet-acknowledged error.
\<close>

theorem unset_acknowledgment_guards:
  assumes "acknowledged s = JUndefined"
  shows "(initial_op a \<longrightarrow>
            result (perform a cl s) = result (perform a cl (s\<lparr>acknowledged := JBool False\<rparr>))
          \<and> sent (perform a cl s) = sent (perform a cl (s\<lparr>acknowledged := JBool False\<rparr>))
          \<and> post (perform a cl s) = (if isl (result (perform a cl s)) then s else update s))
       \<and> (\<not> initial_op a \<longrightarrow>
            result (perform a cl s) = result (perform a cl (s\<lparr>acknowledged := JBool True\<rparr>))
          \<and> sent (perform a cl s) = sent (perform a cl (s\<lparr>acknowledged := JBool True\<rparr>))
          \<and> post (perform a cl s) = s
          \<and> (\<forall>m. result (perform a cl s) \<noteq> Inl (NotYetAcknowledgedError m)))"
  using assms
  by (cases a)
     (auto simp add: method_defs NotYetAcknowledgedError_def split: sum.splits
        dest: normalize_error)

theorem unset_acknowledgment_guards_witness:
  "acknowledged unset_interaction = JUndefined
   \<and> initial_op (Acknowledge (JNum 64))
   \<and> \<not> initial_op GetOriginalMessage
   \<and> sent (perform (Acknowledge (JNum 64)) accepting_client unset_interaction) =
       sent (perform (Acknowledge (JNum 64)) accepting_client
               (unset_interaction\<lparr>acknowledged := JBool False\<rparr>))
   \<and> post (perform (Acknowledge (JNum 64)) accepting_client unset_interaction) =
       update unset_interaction
   \<and> post (perform GetOriginalMessage accepting_client unset_interaction) = unset_interaction
   \<and> sent (perform GetOriginalMessage accepting_client unset_interaction) =
       [getWebhookMessage 800 ''tok'' (JStr ''@original'')]"
  using unset_acknowledgment_guards [of unset_interaction "Acknowledge (JNum 64)" accepting_client]
    unset_acknowledgment_guards [of unset_interaction GetOriginalMessage accepting_client]
  by (simp add: unset_interaction_def accepting_client_def acknowledge_def getOriginalMessage_def)

text \<open>
  Claim C5 as stated fails: with \<^verbatim>\<open>acknowledged\<close> unset, \<^verbatim>\<open>deleteMessage("@original")\<close>
  does not throw; it calls \<^verbatim>\<open>deleteWebhookMessage\<close> and resolves with the client's answer.
\<close>

theorem deleteMessage_unset_is_sent:
  "deleteMessage (JStr ''@original'') accepting_client unset_interaction =
     \<lparr>result = Inr (JObj [(''id'', JStr ''900'')]), post = unset_interaction,
      sent = [deleteWebhookMessage 800 ''tok'' (JStr ''@original'')]\<rparr>"
  by (simp add: deleteMessage_def unset_interaction_def accepting_client_def call_def)

text \<open>
  Claim C8. Whenever a method rejects with the already-acknowledged error, a
  not-yet-acknowledged error or the empty-content error, that call has handed no request to
  the client and the interaction, its acknowledgment state included, is as it was.
\<close>

theorem local_failure_sends_nothing:
  assumes "result (perform a cl s) = Inl e"
    and "e = AlreadyAcknowledgedError \<or> (\<exists>m. e = NotYetAcknowledgedError m) \<or> e = EmptyContentError"
  shows "sent (perform a cl s) = [] \<and> post (perform a cl s) = s"
  using assms
  by (cases a)
     (auto simp add: method_defs AlreadyAcknowledgedError_def NotYetAcknowledgedError_def
        EmptyContentError_def split: sum.splits if_splits)

theorem local_failure_sends_nothing_witness:
  "result (perform (CreateMessage (JObj [])) rejecting_client unacknowledged_interaction) =
     Inl EmptyContentError
   \<and> sent (perform (CreateMessage (JObj [])) rejecting_client unacknowledged_interaction) = []
   \<and> post (perform (CreateMessage (JObj [])) rejecting_client unacknowledged_interaction) =
       unacknowledged_interaction"
proof -
  have r: "result (perform (CreateMessage (JObj [])) rejecting_client unacknowledged_interaction) =
      Inl EmptyContentError"
    by (simp add: createMessage_def unacknowledged_interaction_def Get_def)
  have e: "EmptyContentError = AlreadyAcknowledgedError
      \<or> (\<exists>m. EmptyContentError = NotYetAcknowledgedError m)
      \<or> EmptyContentError = EmptyContentError"
    by simp
  from r local_failure_sends_nothing [OF r e] show ?thesis by simp
qed

text \<open>
  Claim C10. \<^verbatim>\<open>acknowledge\<close> and \<^verbatim>\<open>defer\<close> are the same function of the flags, the
  client and the interaction: the same guard, the same request, the same result and the same
  interaction afterwards.
\<close>

theorem acknowledge_defer_equal:
  "acknowledge flags cl s = defer_response flags cl s"
  by (simp add: acknowledge_def defer_response_def)

theorem acknowledge_defer_equal_witness:
  "acknowledge JUndefined accepting_client unacknowledged_interaction =
     defer_response JUndefined accepting_client unacknowledged_interaction
   \<and> defer_response JUndefined accepting_client unacknowledged_interaction =
       \<lparr>result = Inr JUndefined, post = acknowledged_interaction,
        sent = [createInteractionResponse 700 ''tok'' DEFERRED_CHANNEL_MESSAGE_WITH_SOURCE
                  (JObj [(''flags'', JNum 0)])]\<rparr>"
  using acknowledge_defer_equal [of JUndefined accepting_client unacknowledged_interaction]
  by (simp add: defer_response_def call_then_update_def update_def accepting_client_def
        unacknowledged_interaction_def acknowledged_interaction_def)

section \<open>Hydration\<close>

lemma hydrate_returns [simp]: "hydrate new kind = Inr ()"
  by (simp add: hydrate_def forEach_def Array_from_def LengthOfArrayLike_def split: option.splits)

lemma hydrate_resolved_cases:
  "hydrate_resolved cls block =
     (case block of
        None \<Rightarrow> Inr ()
      | Some r \<Rightarrow> (case roles r of None \<Rightarrow> Inr () | Some obj \<Rightarrow> Inl TypeError))"
  by (simp add: hydrate_resolved_def and_then_def hydrate_roles_def split: option.splits)

text \<open>
  Claim C4, where the code departs from it. Whenever the resolved block has a
  \<^verbatim>\<open>roles\<close> object, whatever else the payload holds, the constructor throws a TypeError:
  no role is hydrated and no object is built.
\<close>

theorem roles_branch_throws:
  assumes "resolved (info_data info) = Some r" and "roles r = Some obj"
  shows "CommandInteraction_new cls cl info = Inl TypeError"
  using assms
  by (simp add: CommandInteraction_new_def hydrate_resolved_cases and_then_def)

theorem roles_branch_throws_witness:
  "resolved (info_data role_info) =
     Some (no_resolved\<lparr>roles := Some [(1, JObj [(''id'', JStr ''1'')])]\<rparr>)
   \<and> roles (no_resolved\<lparr>roles := Some [(1, JObj [(''id'', JStr ''1'')])]\<rparr>) =
       Some [(1, JObj [(''id'', JStr ''1'')])]
   \<and> CommandInteraction_new checking_classes accepting_client role_info = Inl TypeError"
proof -
  have r: "resolved (info_data role_info) =
      Some (no_resolved\<lparr>roles := Some [(1, JObj [(''id'', JStr ''1'')])]\<rparr>)"
    by (simp add: role_info_def)
  have o: "roles (no_resolved\<lparr>roles := Some [(1, JObj [(''id'', JStr ''1'')])]\<rparr>) =
      Some [(1, JObj [(''id'', JStr ''1'')])]"
    by simp
  from r o roles_branch_throws [OF r o, of checking_classes accepting_client]
  show ?thesis by simp
qed

text \<open>
  Claim C6. When the payload has a member and the guild registry has no guild under the
  payload's guild ID, or the payload has no guild ID, the member is built with no guild:
  that step returns the guild-less member, and the constructor returns an object holding
  it whenever the resolved block has no \<^verbatim>\<open>roles\<close> object and the \<^verbatim>\<open>User\<close> class accepts
  the payload's user.
\<close>

theorem member_without_guild:
  assumes "info_member info = Some m"
    and "\<forall>g. info_guild_id info = Some g \<longrightarrow> guilds cl g = None"
    and "Member_new cls = Member_spec"
  shows "construct_optional
           (\<lambda>m. Member_new cls m (guilds_get cl (info_guild_id info)) ClientArg)
           (info_member info) = Inr (Some (Member m None))
       \<and> ((\<forall>r. resolved (info_data info) = Some r \<longrightarrow> roles r = None)
          \<and> (\<forall>u. info_user info = Some u \<longrightarrow> isl (User_new cls u) = False) \<longrightarrow>
          (\<exists>obj. CommandInteraction_new cls cl info = Inr obj
                 \<and> member_field obj = Some (Member m None)))"
proof (intro conjI impI)
  from assms(2) have g: "guilds_get cl (info_guild_id info) = NoArg"
    by (cases "info_guild_id info") (simp_all add: guilds_get_def)
  with assms(1,3)
  show step: "construct_optional
           (\<lambda>m. Member_new cls m (guilds_get cl (info_guild_id info)) ClientArg)
           (info_member info) = Inr (Some (Member m None))"
    by (simp add: construct_optional_def Member_spec_def)
  assume rest: "(\<forall>r. resolved (info_data info) = Some r \<longrightarrow> roles r = None)
          \<and> (\<forall>u. info_user info = Some u \<longrightarrow> isl (User_new cls u) = False)"
  then have h: "hydrate_resolved cls (resolved (info_data info)) = Inr ()"
    by (simp add: hydrate_resolved_cases split: option.splits)
  have "\<exists>u. construct_optional (User_new cls) (info_user info) = Inr u"
  proof (cases "info_user info")
    case None
    then show ?thesis by (simp add: construct_optional_def)
  next
    case (Some x)
    with rest have "\<not> isl (User_new cls x)" by simp
    then obtain v where "User_new cls x = Inr v"
      by (cases "User_new cls x") auto
    with Some show ?thesis by (simp add: construct_optional_def)
  qed
  then obtain u where u: "construct_optional (User_new cls) (info_user info) = Inr u" ..
  from h step u
  show "\<exists>obj. CommandInteraction_new cls cl info = Inr obj
                 \<and> member_field obj = Some (Member m None)"
    by (simp add: CommandInteraction_new_def and_then_def)
qed

theorem member_without_guild_witness:
  "info_member member_info = Some (JObj [(''nick'', JStr ''n'')])
   \<and> info_guild_id member_info = Some 20
   \<and> guilds accepting_client 20 = None
   \<and> Member_new (checking_classes\<lparr>Member_new := Member_spec\<rparr>) = Member_spec
   \<and> resolved (info_data member_info) = None
   \<and> info_user member_info = None
   \<and> CommandInteraction_new (checking_classes\<lparr>Member_new := Member_spec\<rparr>) accepting_client
       member_info =
       Inr \<lparr>channelID = Some 10, data = info_data member_info, guildID = Some 20,
            member_field = Some (Member (JObj [(''nick'', JStr ''n'')]) None),
            user_field = None\<rparr>"
proof -
  have m: "info_member member_info = Some (JObj [(''nick'', JStr ''n'')])"
    by (simp add: member_info_def)
  have g: "\<forall>g. info_guild_id member_info = Some g \<longrightarrow> guilds accepting_client g = None"
    by (simp add: accepting_client_def)
  have c: "Member_new (checking_classes\<lparr>Member_new := Member_spec\<rparr>) = Member_spec"
    by simp
  have r: "\<forall>r. resolved (info_data member_info) = Some r \<longrightarrow> roles r = None"
    by (simp add: member_info_def)
  have u: "\<forall>u. info_user member_info = Some u \<longrightarrow>
         isl (User_new (checking_classes\<lparr>Member_new := Member_spec\<rparr>) u) = False"
    by (simp add: member_info_def)
  from member_without_guild [OF m g c] r u
  obtain obj where
    "CommandInteraction_new (checking_classes\<lparr>Member_new := Member_spec\<rparr>) accepting_client
       member_info = Inr obj"
    and "member_field obj = Some (Member (JObj [(''nick'', JStr ''n'')]) None)"
    by blast
  moreover have "CommandInteraction_new (checking_classes\<lparr>Member_new := Member_spec\<rparr>)
       accepting_client member_info =
       Inr \<lparr>channelID = Some 10, data = info_data member_info, guildID = Some 20,
            member_field = Some (Member (JObj [(''nick'', JStr ''n'')]) None),
            user_field = None\<rparr>"
    by (simp add: CommandInteraction_new_def hydrate_resolved_cases and_then_def
          construct_optional_def member_info_def guilds_get_def accepting_client_def
          Member_spec_def)
  ultimately show ?thesis
    using m c by (simp add: member_info_def accepting_client_def)
qed

text \<open>
  Claim C9, as amended. The constructor catches nothing and reports nothing: an error
  thrown in the hydration pass is the error the constructor throws, no object being
  built, and whenever the constructor returns an object, every ID of every kind of the raw
  resolved block is still in that object's resolved data, none skipped.
\<close>

theorem hydration_skips_nothing:
  "(CommandInteraction_new cls cl info = Inr obj \<longrightarrow>
      resolved_ids (data obj) = resolved_ids (info_data info))
   \<and> (hydrate_resolved cls (resolved (info_data info')) = Inl e \<longrightarrow>
        CommandInteraction_new cls cl info' = Inl e)"
  by (auto simp add: CommandInteraction_new_def and_then_def split: sum.splits)

theorem hydration_skips_nothing_witness:
  "CommandInteraction_new checking_classes accepting_client malformed_user_info =
     Inr \<lparr>channelID = Some 10, data = info_data malformed_user_info, guildID = None,
          member_field = None, user_field = None\<rparr>
   \<and> hydrate_resolved checking_classes (resolved (info_data role_info)) = Inl TypeError
   \<and> resolved_ids (info_data malformed_user_info) = [1, 2] # [] # [] # [] # [] # []
   \<and> CommandInteraction_new checking_classes accepting_client role_info = Inl TypeError"
proof -
  have a: "CommandInteraction_new checking_classes accepting_client malformed_user_info =
     Inr \<lparr>channelID = Some 10, data = info_data malformed_user_info, guildID = None,
          member_field = None, user_field = None\<rparr>"
    by (simp add: CommandInteraction_new_def hydrate_resolved_cases and_then_def
          construct_optional_def malformed_user_info_def no_resolved_def)
  have b: "hydrate_resolved checking_classes (resolved (info_data role_info)) = Inl TypeError"
    by (simp add: hydrate_resolved_cases role_info_def no_resolved_def)
  have c: "resolved_ids (info_data malformed_user_info) = [1, 2] # [] # [] # [] # [] # []"
    by (simp add: resolved_ids_def ids_def malformed_user_info_def no_resolved_def)
  from a b c
    hydration_skips_nothing
      [of checking_classes accepting_client malformed_user_info
          "\<lparr>channelID = Some 10, data = info_data malformed_user_info, guildID = None,
            member_field = None, user_field = None\<rparr>" role_info TypeError]
  show ?thesis by simp
qed

text \<open>
  Claim C9 as stated fails: with entity classes that throw on a payload without an
  \<^verbatim>\<open>id\<close>, a resolved block whose second user lacks its \<^verbatim>\<open>id\<close> is constructed without
  any error, the malformed entry still under its ID and nothing said about it.
\<close>

theorem malformed_entry_kept:
  "User_new checking_classes (JObj []) = Inl (Error ''PayloadShapeError'')
   \<and> CommandInteraction_new checking_classes accepting_client malformed_user_info =
       Inr \<lparr>channelID = Some 10,
            data = \<lparr>resolved = Some \<lparr>users = Some [(1, JObj [(''id'', JStr ''1'')]), (2, JObj [])],
                                      members = None, roles = None, channels = None,
                                      messages = None\<rparr>,
                    other_properties = [(''name'', JStr ''ban'')]\<rparr>,
            guildID = None, member_field = None, user_field = None\<rparr>"
  by (simp add: CommandInteraction_new_def hydrate_resolved_cases and_then_def
        construct_optional_def malformed_user_info_def no_resolved_def checking_classes_def
        require_id_def Get_def)

end
